theory Spec2Isabelle
  imports Complex_Main "HOL-Library.Char_ord" "HOL-Library.List_Lexorder" "HOL-Library.Multiset"
begin

section \<open>Python strings\<close>

text \<open>
  A Python \<open>str\<close> is modelled as a \<open>string\<close>, one \<open>char\<close> per character. The three
  string methods the form uses, \<open>str.strip()\<close>, \<open>str.title()\<close> and the truth value of a
  string, are written out for ASCII text: the whitespace characters are the ASCII ones
  Python's \<open>str.isspace\<close> accepts (tab, line feed, vertical tab, form feed, carriage
  return, the four separators 28..31 and the space), the cased characters are the
  letters \<open>a..z\<close> and \<open>A..Z\<close>. A character above 127 is neither whitespace nor cased
  here.
\<close>

definition isspace_char :: "char \<Rightarrow> bool" where
  "isspace_char c = (let n = (of_char c :: nat) in (9 \<le> n \<and> n \<le> 13) \<or> (28 \<le> n \<and> n \<le> 32))"

definition islower_char :: "char \<Rightarrow> bool" where
  "islower_char c = (let n = (of_char c :: nat) in 97 \<le> n \<and> n \<le> 122)"

definition isupper_char :: "char \<Rightarrow> bool" where
  "isupper_char c = (let n = (of_char c :: nat) in 65 \<le> n \<and> n \<le> 90)"

definition iscased_char :: "char \<Rightarrow> bool" where
  "iscased_char c = (islower_char c \<or> isupper_char c)"

definition lower_char :: "char \<Rightarrow> char" where
  "lower_char c = (if isupper_char c then char_of ((of_char c :: nat) + 32) else c)"

definition upper_char :: "char \<Rightarrow> char" where
  "upper_char c = (if islower_char c then char_of ((of_char c :: nat) - 32) else c)"

text \<open>\<open>str.isspace()\<close>: at least one character, and all of them whitespace.\<close>

definition isspace :: "string \<Rightarrow> bool" where
  "isspace s = (s \<noteq> [] \<and> list_all isspace_char s)"

text \<open>\<open>str.strip()\<close> with no argument: whitespace is dropped at both ends.\<close>

definition lstrip :: "string \<Rightarrow> string" where
  "lstrip s = dropWhile isspace_char s"

definition rstrip :: "string \<Rightarrow> string" where
  "rstrip s = rev (dropWhile isspace_char (rev s))"

definition strip :: "string \<Rightarrow> string" where
  "strip s = rstrip (lstrip s)"

text \<open>
  \<open>str.title()\<close>: one pass from left to right that remembers whether the previous
  character was cased. A character after a cased one is lowercased, any other is
  uppercased (for ASCII the title case of a letter is its upper case).
\<close>

fun title_from :: "bool \<Rightarrow> string \<Rightarrow> string" where
  "title_from previous_is_cased [] = []"
| "title_from previous_is_cased (c # cs) =
     (if previous_is_cased then lower_char c else upper_char c) # title_from (iscased_char c) cs"

definition title :: "string \<Rightarrow> string" where
  "title s = title_from False s"

text \<open>The normalization of a new category name, \<open>new_category_name.strip().title()\<close>.\<close>

definition normalize :: "string \<Rightarrow> string" where
  "normalize s = title (strip s)"

section \<open>The document store and the session\<close>

text \<open>
  What the program shows with \<open>st.error\<close>, \<open>st.warning\<close>, \<open>st.success\<close> and \<open>st.info\<close>.
\<close>

datatype message = st_error string | st_warning string | st_success string | st_info string

text \<open>
  The value of a \<open>timestamp\<close> field in a write: the sentinel \<open>firestore.SERVER_TIMESTAMP\<close>,
  which the store replaces by its commit time, or a time chosen by the client.
\<close>

datatype time_field = SERVER_TIMESTAMP | ClientTime nat

text \<open>
  The two \<open>add\<close> calls with their payloads. \<open>CategoryAdd name userId\<close> is
  \<open>categories_ref.add({"name": .., "userId": ..})\<close>; \<open>SpendingAdd\<close> carries the keys
  \<open>amount\<close>, \<open>description\<close>, \<open>category\<close>, \<open>timestamp\<close> and \<open>userId\<close> in this order.
\<close>

datatype store_write =
    CategoryAdd string string
  | SpendingAdd real string string time_field string

fun is_category_write :: "store_write \<Rightarrow> bool" where
  "is_category_write (CategoryAdd _ _) = True"
| "is_category_write (SpendingAdd _ _ _ _ _) = False"

fun is_spending_write :: "store_write \<Rightarrow> bool" where
  "is_spending_write (CategoryAdd _ _) = False"
| "is_spending_write (SpendingAdd _ _ _ _ _) = True"

text \<open>The stored documents of the two collections of one user.\<close>

record category_doc =
  cd_name :: string
  cd_userId :: string

record spending_doc =
  sd_id :: nat
  sd_amount :: real
  sd_description :: string
  sd_category :: string
  sd_timestamp :: nat
  sd_userId :: string

text \<open>
  \<open>st.session_state\<close> (\<open>auth_ready\<close>, \<open>user_id\<close>, \<open>last_update_time\<close>) together with the
  two collections under \<open>artifacts/{app_id}/users/{user_id}/\<close>. Times are clock readings
  counted as natural numbers.
\<close>

record state =
  auth_ready :: bool
  user_id :: "string option"
  last_update_time :: nat
  categories_col :: "category_doc list"
  spendings_col :: "spending_doc list"

text \<open>
  What one run of the script gets from outside: the reading of \<open>datetime.now()\<close>, the
  commit time the store assigns for the sentinel, and for each store call the text of
  the exception it raises, if it raises one.
\<close>

record env =
  now :: nat
  server_time :: nat
  categories_get_error :: "string option"
  spendings_get_error :: "string option"
  categories_add_error :: "string option"
  spendings_add_error :: "string option"

text \<open>
  \<open>get_spendings_collection_ref\<close> and \<open>get_categories_collection_ref\<close>: a reference when
  \<open>st.session_state.user_id\<close> is truthy (neither \<open>None\<close> nor the empty string), else
  \<open>None\<close>. The reference is represented by the user id that scopes its path.
\<close>

definition get_spendings_collection_ref :: "state \<Rightarrow> string option" where
  "get_spendings_collection_ref st =
     (case user_id st of None \<Rightarrow> None | Some uid \<Rightarrow> if uid \<noteq> [] then Some uid else None)"

definition get_categories_collection_ref :: "state \<Rightarrow> string option" where
  "get_categories_collection_ref st =
     (case user_id st of None \<Rightarrow> None | Some uid \<Rightarrow> if uid \<noteq> [] then Some uid else None)"

section \<open>Fetching\<close>

text \<open>
  \<open>fetch_categories\<close>: the names of the user's category documents, \<open>sorted(..)\<close>; the
  empty list without a message when there is no reference, and the empty list with an
  \<open>st.error\<close> when \<open>categories_ref.get()\<close> raises. The result is paired with the messages
  shown. The \<open>st.cache_data\<close> wrapper is left out: every call reads the store.
\<close>

definition fetch_categories :: "state \<Rightarrow> env \<Rightarrow> string list \<times> message list" where
  "fetch_categories st e =
     (case get_categories_collection_ref st of
        None \<Rightarrow> ([], [])
      | Some categories_ref \<Rightarrow>
          (case categories_get_error e of
             Some err \<Rightarrow> ([], [st_error (''Error fetching categories: '' @ err)])
           | None \<Rightarrow> (sort (map cd_name (categories_col st)), [])))"

text \<open>
  The store's answer to \<open>order_by("timestamp", direction=DESCENDING).get()\<close>: the
  documents of the collection, latest timestamp first.
\<close>

definition order_by_timestamp_descending :: "spending_doc list \<Rightarrow> spending_doc list" where
  "order_by_timestamp_descending docs = rev (sort_key sd_timestamp docs)"

text \<open>
  A cell of a data frame, and a row as the dictionary \<open>doc.to_dict()\<close> gives, keys in
  the order of the payload. A data frame built from a list of dictionaries is the list
  of its rows.
\<close>

datatype cell = Float real | Str string | Timestamp nat | Datetime nat | DocId nat

type_synonym row = "(string \<times> cell) list"

definition to_dict :: "spending_doc \<Rightarrow> row" where
  "to_dict doc =
     [(''amount'', Float (sd_amount doc)), (''description'', Str (sd_description doc)),
      (''category'', Str (sd_category doc)), (''timestamp'', Timestamp (sd_timestamp doc)),
      (''userId'', Str (sd_userId doc))]"

text \<open>Lines 90 to 94: the \<open>id\<close> key is added and a store timestamp becomes a datetime.\<close>

fun to_datetime :: "string \<times> cell \<Rightarrow> string \<times> cell" where
  "to_datetime (k, Timestamp t) = (if k = ''timestamp'' then (k, Datetime t) else (k, Timestamp t))"
| "to_datetime (k, v) = (k, v)"

definition spending_row :: "spending_doc \<Rightarrow> row" where
  "spending_row doc = map to_datetime (to_dict doc @ [(''id'', DocId (sd_id doc))])"

definition fetch_spendings :: "state \<Rightarrow> env \<Rightarrow> row list \<times> message list" where
  "fetch_spendings st e =
     (case get_spendings_collection_ref st of
        None \<Rightarrow> ([], [])
      | Some spendings_ref \<Rightarrow>
          (case spendings_get_error e of
             Some err \<Rightarrow> ([], [st_error (''Error fetching spendings: '' @ err)])
           | None \<Rightarrow> (map spending_row (order_by_timestamp_descending (spendings_col st)), [])))"

section \<open>The spending form\<close>

text \<open>The two fixed entries of the category select box.\<close>

definition SELECT_EXISTING :: string where
  "SELECT_EXISTING = ''Select an existing category''"

definition CREATE_NEW :: string where
  "CREATE_NEW = ''--- Create New Category ---''"

definition category_options :: "string list \<Rightarrow> string list" where
  "category_options categories = [SELECT_EXISTING] @ categories @ [CREATE_NEW]"

text \<open>
  The values the widgets of the form hold: \<open>amount\<close> from \<open>st.number_input\<close>,
  \<open>description\<close> from the first \<open>st.text_input\<close>, \<open>selected_category_option\<close> from
  \<open>st.selectbox\<close>, and \<open>new_category_name\<close> from the text input that is read only when
  the create entry is selected.
\<close>

record form =
  amount :: real
  description :: string
  selected_category_option :: string
  new_category_name :: string

text \<open>
  Lines 146 to 156. The result is the value of \<open>new_category_name\<close> (\<open>None\<close> when the
  text input is not read), the value of \<open>selected_category_option\<close> after the
  reassignment, and the warning shown. A string is truthy when it is not empty.
\<close>

definition resolve_new_category ::
    "string list \<Rightarrow> form \<Rightarrow> string option \<times> string \<times> message list" where
  "resolve_new_category categories f =
     (if selected_category_option f = CREATE_NEW then
        (if new_category_name f \<noteq> [] then
           (let n = title (strip (new_category_name f)) in
            if n \<in> set categories
            then (Some n, n,
                  [st_warning (''Category '' @ [CHR 0x27] @ n @ [CHR 0x27] @ '' already exists. Selecting it instead.'')])
            else (Some n, n, []))
         else (Some (new_category_name f), selected_category_option f, []))
      else (None, selected_category_option f, []))"

text \<open>The truth value of \<open>new_category_name\<close>: false for \<open>None\<close> and for the empty string.\<close>

fun truthy :: "string option \<Rightarrow> bool" where
  "truthy None = False"
| "truthy (Some s) = (s \<noteq> [])"

text \<open>
  How a submission ended. The handler itself returns nothing; the tag names the branch
  it took: the form was not submitted, one of the three \<open>st.error\<close> branches of the
  validation, the spending was added (with the final category), the spendings reference
  was \<open>None\<close>, or an \<open>add\<close> raised.
\<close>

datatype outcome =
    NotSubmitted
  | ValidationError
  | Added string
  | CollectionNotReady
  | StoreError string

record result =
  outcome :: outcome
  messages :: "message list"
  writes :: "store_write list"
  new_state :: state

text \<open>
  Lines 168 to 170: the final category is the selected option, normalized once more when
  the selected option is the create entry and a new name is there.
\<close>

definition final_category :: "string option \<Rightarrow> string \<Rightarrow> string" where
  "final_category new_name selected =
     (if selected = CREATE_NEW \<and> truthy new_name then title (strip (the new_name)) else selected)"

text \<open>
  Lines 173 to 179: when the final category is not among the fetched ones and there is a
  categories reference, the category is added. The result is the exception text if the
  \<open>add\<close> raised, the state, the writes issued and the messages shown.
\<close>

definition add_category ::
    "state \<Rightarrow> env \<Rightarrow> string list \<Rightarrow> string
       \<Rightarrow> string option \<times> state \<times> store_write list \<times> message list" where
  "add_category st e categories final =
     (if final \<notin> set categories then
        (case get_categories_collection_ref st of
           None \<Rightarrow> (None, st, [], [])
         | Some uid \<Rightarrow>
             (case categories_add_error e of
                Some err \<Rightarrow> (Some err, st, [CategoryAdd final uid], [])
              | None \<Rightarrow>
                  (None,
                   st\<lparr>categories_col := categories_col st @ [\<lparr>cd_name = final, cd_userId = uid\<rparr>],
                      last_update_time := now e\<rparr>,
                   [CategoryAdd final uid],
                   [st_success (''New category '' @ [CHR 0x27] @ final @ [CHR 0x27] @ '' created!'')])))
      else (None, st, [], []))"

text \<open>
  Lines 181 to 194: the spending is added when there is a spendings reference. The
  stored document gets the commit time of the store in place of the sentinel, and a
  fresh id.
\<close>

definition add_spending ::
    "state \<Rightarrow> env \<Rightarrow> string \<Rightarrow> real \<Rightarrow> string \<Rightarrow> result" where
  "add_spending st e final amt descr =
     (case get_spendings_collection_ref st of
        None \<Rightarrow>
          \<lparr>outcome = CollectionNotReady,
           messages = [st_error ''Firestore collection not ready. Please refresh.''],
           writes = [], new_state = st\<rparr>
      | Some uid \<Rightarrow>
          (case spendings_add_error e of
             Some err \<Rightarrow>
               \<lparr>outcome = StoreError err,
                messages = [st_error (''Error adding spending: '' @ err)],
                writes = [SpendingAdd amt (strip descr) final SERVER_TIMESTAMP uid],
                new_state = st\<rparr>
           | None \<Rightarrow>
               \<lparr>outcome = Added final,
                messages = [st_success ''Spending added successfully!''],
                writes = [SpendingAdd amt (strip descr) final SERVER_TIMESTAMP uid],
                new_state =
                  st\<lparr>spendings_col := spendings_col st @
                       [\<lparr>sd_id = length (spendings_col st), sd_amount = amt,
                         sd_description = strip descr, sd_category = final,
                         sd_timestamp = server_time e, sd_userId = uid\<rparr>],
                     last_update_time := now e\<rparr>\<rparr>))"

text \<open>Lines 172 to 197: the \<open>try\<close> block, an exception of the first \<open>add\<close> ending it.\<close>

definition add_records ::
    "state \<Rightarrow> env \<Rightarrow> string list \<Rightarrow> string \<Rightarrow> real \<Rightarrow> string \<Rightarrow> result" where
  "add_records st e categories final amt descr =
     (case add_category st e categories final of
        (Some err, st1, w1, m1) \<Rightarrow>
          \<lparr>outcome = StoreError err,
           messages = m1 @ [st_error (''Error adding spending: '' @ err)],
           writes = w1, new_state = st1\<rparr>
      | (None, st1, w1, m1) \<Rightarrow>
          (let r = add_spending st1 e final amt descr
           in r\<lparr>messages := m1 @ messages r, writes := w1 @ writes r\<rparr>))"

text \<open>
  Lines 146 to 197: the body of the form, run with the fetched \<open>categories\<close>, the values
  of the widgets and whether the submit button was pressed. \<open>not amount\<close> holds for the
  amount zero, \<open>not description\<close> for the empty string.
\<close>

definition spending_form :: "state \<Rightarrow> env \<Rightarrow> string list \<Rightarrow> form \<Rightarrow> bool \<Rightarrow> result" where
  "spending_form st e categories f submit_button =
     (case resolve_new_category categories f of
        (new_name, selected, shown) \<Rightarrow>
          if submit_button then
            if amount f = 0 \<or> description f = [] then
              \<lparr>outcome = ValidationError,
               messages = shown @ [st_error ''Please enter both Amount and Description.''],
               writes = [], new_state = st\<rparr>
            else if selected = SELECT_EXISTING then
              \<lparr>outcome = ValidationError,
               messages = shown @ [st_error ''Please select or create a category.''],
               writes = [], new_state = st\<rparr>
            else if selected = CREATE_NEW \<and> \<not> truthy new_name then
              \<lparr>outcome = ValidationError,
               messages = shown @ [st_error ''Please enter a name for the new category.''],
               writes = [], new_state = st\<rparr>
            else
              (let r = add_records st e categories (final_category new_name selected)
                         (amount f) (description f)
               in r\<lparr>messages := shown @ messages r\<rparr>)
          else \<lparr>outcome = NotSubmitted, messages = shown, writes = [], new_state = st\<rparr>)"

text \<open>
  The submit operation of the specification, \<open>submit(ownerId, amount, description,
  categoryChoice, newCategoryName)\<close>: the form run with the button pressed.
\<close>

definition submit :: "state \<Rightarrow> env \<Rightarrow> string list \<Rightarrow> form \<Rightarrow> result" where
  "submit st e categories f = spending_form st e categories f True"

text \<open>The category a submission resolves to, from the fetched categories and the widgets.\<close>

definition resolved_category :: "string list \<Rightarrow> form \<Rightarrow> string" where
  "resolved_category categories f =
     (case resolve_new_category categories f of
        (new_name, selected, shown) \<Rightarrow> final_category new_name selected)"

text \<open>
  \<open>st.form("spending_form", clear_on_submit=True)\<close>: with this flag every widget of the
  form is back at its default value after a run in which the submit button was pressed.
  The defaults are the minimum \<open>0.01\<close> of the number input, the empty text of the text
  inputs and the first option of the select box.
\<close>

definition clear_on_submit :: bool where
  "clear_on_submit = True"

definition default_form :: form where
  "default_form =
     \<lparr>amount = 1 / 100, description = [], selected_category_option = SELECT_EXISTING,
      new_category_name = []\<rparr>"

definition form_after :: "form \<Rightarrow> bool \<Rightarrow> form" where
  "form_after f submit_button = (if submit_button \<and> clear_on_submit then default_form else f)"

section \<open>The table of spendings\<close>

text \<open>
  \<open>spendings_df[[...]]\<close>: the listed columns of every row, in the listed order; \<open>None\<close>
  stands for the \<open>KeyError\<close> of a missing column.
\<close>

definition select_columns :: "string list \<Rightarrow> row list \<Rightarrow> row list option" where
  "select_columns cols df =
     (if list_all (\<lambda>r. list_all (\<lambda>c. map_of r c \<noteq> None) cols) df
      then Some (map (\<lambda>r. map (\<lambda>c. (c, the (map_of r c))) cols) df)
      else None)"

definition display_columns :: "string list" where
  "display_columns = [''timestamp'', ''amount'', ''category'', ''description'']"

definition display_labels :: "string list" where
  "display_labels = [''Date/Time'', ''Amount'', ''Category'', ''Description'']"

datatype display = Dataframe "string list" "cell list list" | Info string | KeyError

text \<open>Lines 206 to 212: the table with its new column labels, or the note that there is none.\<close>

definition show_spendings :: "row list \<Rightarrow> display" where
  "show_spendings spendings_df =
     (if spendings_df \<noteq> [] then
        (case select_columns display_columns spendings_df of
           None \<Rightarrow> KeyError
         | Some display_df \<Rightarrow> Dataframe display_labels (map (map snd) display_df))
      else Info ''No spendings recorded yet. Add some above!'')"

section \<open>One run of the script\<close>

record page =
  page_state :: state
  page_form :: form
  page_messages :: "message list"
  page_writes :: "store_write list"
  page_display :: "display option"

text \<open>
  Lines 120 to 212: the script stops before the form unless the user is authenticated;
  otherwise it fetches the categories, runs the form and shows the spendings.
\<close>

definition run :: "state \<Rightarrow> env \<Rightarrow> form \<Rightarrow> bool \<Rightarrow> page" where
  "run st e f submit_button =
     (if \<not> auth_ready st then
        \<lparr>page_state = st, page_form = f,
         page_messages = [st_info ''Initializing application and authenticating...''],
         page_writes = [], page_display = None\<rparr>
      else if \<not> truthy (user_id st) \<or> user_id st = Some ''anonymous_unauthenticated'' then
        \<lparr>page_state = st, page_form = f,
         page_messages = [st_error ''Could not authenticate user. Please try refreshing the page.''],
         page_writes = [], page_display = None\<rparr>
      else
        (case fetch_categories st e of
           (categories, m1) \<Rightarrow>
             (let r = spending_form st e categories f submit_button in
              case fetch_spendings (new_state r) e of
                (spendings_df, m2) \<Rightarrow>
                  \<lparr>page_state = new_state r, page_form = form_after f submit_button,
                   page_messages = m1 @ messages r @ m2, page_writes = writes r,
                   page_display = Some (show_spendings spendings_df)\<rparr>)))"

text \<open>
  The states of a session: it starts authenticated with empty collections, and every run
  of the script leads from one state to the next. The select box only ever returns one of
  its options.
\<close>

definition initial_state :: "string \<Rightarrow> nat \<Rightarrow> state" where
  "initial_state uid t =
     \<lparr>auth_ready = True, user_id = Some uid, last_update_time = t,
      categories_col = [], spendings_col = []\<rparr>"

inductive reachable :: "state \<Rightarrow> bool" where
  start: "reachable (initial_state uid t)"
| step: "reachable st \<Longrightarrow>
         selected_category_option f \<in> set (category_options (fst (fetch_categories st e))) \<Longrightarrow>
         reachable (page_state (run st e f submit_button))"

text \<open>The same, every run fetching the categories without an error.\<close>

inductive reachable_fetched :: "state \<Rightarrow> bool" where
  start_fetched: "reachable_fetched (initial_state uid t)"
| step_fetched: "reachable_fetched st \<Longrightarrow>
         categories_get_error e = None \<Longrightarrow>
         selected_category_option f \<in> set (category_options (fst (fetch_categories st e))) \<Longrightarrow>
         reachable_fetched (page_state (run st e f submit_button))"

text \<open>The normalized names of the stored category documents.\<close>

definition normalized_names :: "state \<Rightarrow> string list" where
  "normalized_names st = map (\<lambda>d. normalize (cd_name d)) (categories_col st)"

text \<open>A run in which no store call raises, at client time \<open>t\<close> and commit time \<open>ts\<close>.\<close>

definition no_errors :: "nat \<Rightarrow> nat \<Rightarrow> env" where
  "no_errors t ts =
     \<lparr>now = t, server_time = ts, categories_get_error = None, spendings_get_error = None,
      categories_add_error = None, spendings_add_error = None\<rparr>"

text \<open>Forms and a failing environment used as concrete inputs below.\<close>

definition coffee_form :: form where
  "coffee_form =
     \<lparr>amount = 5, description = ''Coffee'', selected_category_option = CREATE_NEW,
      new_category_name = ''coffee''\<rparr>"

definition lunch_form :: form where
  "lunch_form =
     \<lparr>amount = 25 / 2, description = ''Lunch'', selected_category_option = ''Food'',
      new_category_name = []\<rparr>"

definition blank_description_form :: form where
  "blank_description_form =
     \<lparr>amount = 5, description = ''   '', selected_category_option = ''Food'',
      new_category_name = []\<rparr>"


definition no_description_form :: form where
  "no_description_form =
     \<lparr>amount = 5, description = [], selected_category_option = ''Food'',
      new_category_name = []\<rparr>"

definition fetch_fails :: "nat \<Rightarrow> nat \<Rightarrow> env" where
  "fetch_fails t ts = (no_errors t ts)\<lparr>categories_get_error := Some ''unavailable''\<rparr>"

text \<open>A state with three stored categories and one with two stored spendings.\<close>

definition three_categories :: state where
  "three_categories =
     (initial_state ''u1'' 0)\<lparr>categories_col :=
        [\<lparr>cd_name = ''banana'', cd_userId = ''u1''\<rparr>,
         \<lparr>cd_name = ''apple'', cd_userId = ''u1''\<rparr>,
         \<lparr>cd_name = ''Apple'', cd_userId = ''u1''\<rparr>]\<rparr>"


section \<open>Unfolding the handler\<close>

lemmas handler_defs =
  submit_def spending_form_def add_records_def add_category_def add_spending_def
  resolve_new_category_def final_category_def resolved_category_def
  get_categories_collection_ref_def get_spendings_collection_ref_def


section \<open>Validation of the amount\<close>




section \<open>The writes of a successful submission\<close>

lemma title_strip_coffee: "title (strip ''coffee'') = ''Coffee''"
  by code_simp

lemma strip_Coffee: "strip ''Coffee'' = ''Coffee''"
  by code_simp

lemma strip_Lunch: "strip ''Lunch'' = ''Lunch''"
  by code_simp

lemma add_records_Added:
  assumes "outcome (add_records st e categories final amt descr) = Added c"
  shows "c = final \<and>
    (\<exists>uid. user_id st = Some uid \<and> uid \<noteq> [] \<and>
       writes (add_records st e categories final amt descr) =
         (if final \<in> set categories then [] else [CategoryAdd final uid]) @
         [SpendingAdd amt (strip descr) final SERVER_TIMESTAMP uid]) \<and>
    (final \<in> set categories \<longrightarrow>
       categories_col (new_state (add_records st e categories final amt descr)) = categories_col st)"
  using assms
  by (cases "user_id st"; cases "categories_add_error e"; cases "spendings_add_error e";
      cases "final \<in> set categories";
      simp add: add_records_def add_category_def add_spending_def
        get_categories_collection_ref_def get_spendings_collection_ref_def split: if_splits)

lemma submit_Added:
  assumes "outcome (submit st e categories f) = Added c"
  shows "submit st e categories f =
     (add_records st e categories (resolved_category categories f) (amount f) (description f))
       \<lparr>messages := snd (snd (resolve_new_category categories f)) @
          messages (add_records st e categories (resolved_category categories f) (amount f) (description f))\<rparr>"
  using assms
  by (auto simp: submit_def spending_form_def resolved_category_def Let_def split: prod.splits if_splits)

lemma submit_Added_writes:
  assumes "outcome (submit st e categories f) = Added c"
  shows "c = resolved_category categories f \<and>
    (\<exists>uid. user_id st = Some uid \<and> uid \<noteq> [] \<and>
       writes (submit st e categories f) =
         (if c \<in> set categories then [] else [CategoryAdd c uid]) @
         [SpendingAdd (amount f) (strip (description f)) c SERVER_TIMESTAMP uid]) \<and>
    (c \<in> set categories \<longrightarrow>
       categories_col (new_state (submit st e categories f)) = categories_col st)"
proof -
  let ?r = "add_records st e categories (resolved_category categories f) (amount f) (description f)"
  have eq: "submit st e categories f =
      ?r\<lparr>messages := snd (snd (resolve_new_category categories f)) @ messages ?r\<rparr>"
    using assms by (rule submit_Added)
  have "outcome ?r = Added c"
    using assms by (subst (asm) eq) simp
  from add_records_Added [OF this] show ?thesis
    by (subst eq, subst eq) auto
qed

lemma coffee_Added:
  "outcome (submit (initial_state ''u1'' 0) (no_errors 1 2) [] coffee_form) = Added ''Coffee''"
  "writes (submit (initial_state ''u1'' 0) (no_errors 1 2) [] coffee_form) =
     [CategoryAdd ''Coffee'' ''u1'', SpendingAdd 5 ''Coffee'' ''Coffee'' SERVER_TIMESTAMP ''u1'']"
  "categories_col (new_state (submit (initial_state ''u1'' 0) (no_errors 1 2) [] coffee_form)) =
     [\<lparr>cd_name = ''Coffee'', cd_userId = ''u1''\<rparr>]"
  by (simp_all add: handler_defs coffee_form_def initial_state_def no_errors_def Let_def
      title_strip_coffee strip_Coffee CREATE_NEW_def SELECT_EXISTING_def)

lemma lunch_Added:
  "outcome (submit (initial_state ''u1'' 0) (no_errors 1 2) [''Food''] lunch_form) = Added ''Food''"
  "writes (submit (initial_state ''u1'' 0) (no_errors 1 2) [''Food''] lunch_form) =
     [SpendingAdd (25 / 2) ''Lunch'' ''Food'' SERVER_TIMESTAMP ''u1'']"
  "categories_col (new_state (submit (initial_state ''u1'' 0) (no_errors 1 2) [''Food''] lunch_form)) = []"
  by (simp_all add: handler_defs lunch_form_def initial_state_def no_errors_def Let_def
      strip_Lunch CREATE_NEW_def SELECT_EXISTING_def)

lemma add_records_not_ValidationError:
  "outcome (add_records st e categories final amt descr) \<noteq> ValidationError"
  by (cases "user_id st"; cases "categories_add_error e"; cases "spendings_add_error e";
      cases "final \<in> set categories";
      simp add: add_records_def add_category_def add_spending_def
        get_categories_collection_ref_def get_spendings_collection_ref_def)

text \<open>
  C3. A successful submit whose resolved category is not among the fetched categories
  issues exactly two writes: first the category with the resolved name, then the
  spending; so exactly one write of each kind, the category one first.
\<close>

theorem new_category_writes:
  assumes "outcome (submit st e categories f) = Added c" and "c \<notin> set categories"
  shows "c = resolved_category categories f \<and>
    (\<exists>uid. user_id st = Some uid \<and>
       writes (submit st e categories f) =
         [CategoryAdd c uid,
          SpendingAdd (amount f) (strip (description f)) c SERVER_TIMESTAMP uid]) \<and>
    length (filter is_category_write (writes (submit st e categories f))) = 1 \<and>
    length (filter is_spending_write (writes (submit st e categories f))) = 1"
  using submit_Added_writes [OF assms(1)] assms(2) by auto

theorem new_category_writes_witness:
  "outcome (submit (initial_state ''u1'' 0) (no_errors 1 2) [] coffee_form) = Added ''Coffee'' \<and>
   ''Coffee'' \<notin> set ([] :: string list) \<and>
   writes (submit (initial_state ''u1'' 0) (no_errors 1 2) [] coffee_form) =
     [CategoryAdd ''Coffee'' ''u1'', SpendingAdd 5 ''Coffee'' ''Coffee'' SERVER_TIMESTAMP ''u1''] \<and>
   length (filter is_category_write
     (writes (submit (initial_state ''u1'' 0) (no_errors 1 2) [] coffee_form))) = 1"
  using new_category_writes [of "initial_state ''u1'' 0" "no_errors 1 2" "[]" coffee_form "''Coffee''"]
    coffee_Added
  by simp

text \<open>
  C4. A successful submit whose resolved category is among the fetched categories issues
  one write, the spending, and no category write; the categories collection stays as it
  was.
\<close>

theorem existing_category_writes:
  assumes "outcome (submit st e categories f) = Added c" and "c \<in> set categories"
  shows "c = resolved_category categories f \<and>
    (\<exists>uid. user_id st = Some uid \<and>
       writes (submit st e categories f) =
         [SpendingAdd (amount f) (strip (description f)) c SERVER_TIMESTAMP uid]) \<and>
    filter is_category_write (writes (submit st e categories f)) = [] \<and>
    categories_col (new_state (submit st e categories f)) = categories_col st"
  using submit_Added_writes [OF assms(1)] assms(2) by auto

theorem existing_category_writes_witness:
  "outcome (submit (initial_state ''u1'' 0) (no_errors 1 2) [''Food''] lunch_form) = Added ''Food'' \<and>
   ''Food'' \<in> set [''Food''] \<and>
   writes (submit (initial_state ''u1'' 0) (no_errors 1 2) [''Food''] lunch_form) =
     [SpendingAdd (25 / 2) ''Lunch'' ''Food'' SERVER_TIMESTAMP ''u1''] \<and>
   categories_col (new_state (submit (initial_state ''u1'' 0) (no_errors 1 2) [''Food''] lunch_form)) =
     categories_col (initial_state ''u1'' 0)"
  using existing_category_writes [of "initial_state ''u1'' 0" "no_errors 1 2" "[''Food'']" lunch_form "''Food''"]
    lunch_Added
  by simp



section \<open>A description of blanks\<close>

lemma isspace_three_blanks: "isspace ''   ''"
  by code_simp

lemma strip_three_blanks: "strip ''   '' = []"
  by code_simp

text \<open>
  C5. The claim asks for a validation error whenever the description is made of
  whitespace only. The handler tests \<open>not description\<close>, which a description of three
  blanks passes: the submission succeeds and the spending is written with the stripped,
  empty description.
\<close>

theorem blank_description_accepted:
  "isspace (description blank_description_form) \<and>
   outcome (submit (initial_state ''u1'' 0) (no_errors 1 2) [''Food''] blank_description_form) =
     Added ''Food'' \<and>
   writes (submit (initial_state ''u1'' 0) (no_errors 1 2) [''Food''] blank_description_form) =
     [SpendingAdd 5 [] ''Food'' SERVER_TIMESTAMP ''u1'']"
  by (simp add: handler_defs blank_description_form_def initial_state_def no_errors_def Let_def
        isspace_three_blanks strip_three_blanks CREATE_NEW_def SELECT_EXISTING_def)

section \<open>A submission that fails validation\<close>

lemma submit_ValidationError:
  assumes "outcome (submit st e categories f) = ValidationError"
  shows "writes (submit st e categories f) = []"
    and "new_state (submit st e categories f) = st"
    and "\<exists>text \<in> {''Please enter both Amount and Description.'',
                   ''Please select or create a category.'',
                   ''Please enter a name for the new category.''}.
           messages (submit st e categories f) =
             snd (snd (resolve_new_category categories f)) @ [st_error text]"
  using assms
  by (auto simp: submit_def spending_form_def Let_def add_records_not_ValidationError
        split: prod.splits if_splits)

text \<open>
  C8, as the code has it. A submission that ends in a validation error issues no
  write, leaves the stored state as it was and shows one of the three error texts of
  the form; the widgets of the form are back at their defaults afterwards, because the
  form is declared with \<open>clear_on_submit=True\<close>.
\<close>

theorem validation_error_effects:
  assumes "outcome (submit st e categories f) = ValidationError"
  shows "writes (submit st e categories f) = [] \<and>
    new_state (submit st e categories f) = st \<and>
    (\<exists>text \<in> {''Please enter both Amount and Description.'',
                ''Please select or create a category.'',
                ''Please enter a name for the new category.''}.
       messages (submit st e categories f) =
         snd (snd (resolve_new_category categories f)) @ [st_error text]) \<and>
    form_after f True = default_form"
  using submit_ValidationError [OF assms]
  by (simp add: form_after_def clear_on_submit_def)

theorem validation_error_effects_witness:
  "outcome (submit (initial_state ''u1'' 0) (no_errors 1 2) [''Food''] no_description_form) =
     ValidationError \<and>
   writes (submit (initial_state ''u1'' 0) (no_errors 1 2) [''Food''] no_description_form) = [] \<and>
   new_state (submit (initial_state ''u1'' 0) (no_errors 1 2) [''Food''] no_description_form) =
     initial_state ''u1'' 0 \<and>
   form_after no_description_form True = default_form"
  using validation_error_effects [of "initial_state ''u1'' 0" "no_errors 1 2" "[''Food'']"
      no_description_form]
  by (simp add: submit_def spending_form_def no_description_form_def split: prod.splits)

text \<open>
  C8, as the claim has it, fails in its last part: a submission with an empty
  description ends in a validation error, and the form the page holds after that run is
  not the form that was submitted.
\<close>

theorem form_cleared_on_validation_error:
  "outcome (submit (initial_state ''u1'' 0) (no_errors 1 2)
       (fst (fetch_categories (initial_state ''u1'' 0) (no_errors 1 2))) no_description_form) =
     ValidationError \<and>
   page_form (run (initial_state ''u1'' 0) (no_errors 1 2) no_description_form True) \<noteq>
     no_description_form"
  by (simp add: run_def submit_def spending_form_def no_description_form_def initial_state_def
        form_after_def clear_on_submit_def default_form_def split: prod.splits)

section \<open>A new category name of blanks\<close>









section \<open>The fetched categories\<close>

text \<open>
  C7. For a signed-in user, \<open>fetch_categories\<close> returns the stored names in ascending
  order, the order of strings being the lexicographic one on character codes (so upper
  case letters come before lower case ones), and shows no message; when the read raises,
  it returns the empty list and shows the error.
\<close>

theorem fetch_categories_sorted:
  assumes "user_id st = Some uid" and "uid \<noteq> []"
  shows "(categories_get_error e = None \<longrightarrow>
       sorted (fst (fetch_categories st e)) \<and>
       mset (fst (fetch_categories st e)) = mset (map cd_name (categories_col st)) \<and>
       snd (fetch_categories st e) = []) \<and>
    (\<forall>err. categories_get_error e = Some err \<longrightarrow>
       fetch_categories st e = ([], [st_error (''Error fetching categories: '' @ err)]))"
  using assms
  by (simp add: fetch_categories_def get_categories_collection_ref_def)

lemma sort_three_names: "sort [''banana'', ''apple'', ''Apple''] = [''Apple'', ''apple'', ''banana'']"
  by code_simp

theorem fetch_categories_sorted_witness:
  "user_id three_categories = Some ''u1'' \<and> ''u1'' \<noteq> [] \<and>
   fetch_categories three_categories (no_errors 1 2) = ([''Apple'', ''apple'', ''banana''], []) \<and>
   sorted (fst (fetch_categories three_categories (no_errors 1 2))) \<and>
   fetch_categories three_categories (fetch_fails 1 2) =
     ([], [st_error ''Error fetching categories: unavailable''])"
  using fetch_categories_sorted [of three_categories "''u1''" "no_errors 1 2"]
    fetch_categories_sorted [of three_categories "''u1''" "fetch_fails 1 2"]
    sort_three_names
  by (simp add: three_categories_def initial_state_def no_errors_def fetch_fails_def
        fetch_categories_def get_categories_collection_ref_def)

section \<open>The table of spendings, latest first\<close>







end
